theory Spec2Isabelle
  imports Main
begin

section \<open>Errors, panics and pipeline stages\<close>

text \<open>
  Go's \<open>error\<close> values as they occur in package \<open>querymw\<close>. A nil error is \<open>None\<close> of
  \<open>go_error option\<close>.
  \<^item> \<open>RequestBlockedError t\<close> is the structured \<open>*RequestBlockedError\<close> whose field
    \<open>Type\<close> is \<open>t\<close>, the tag of the stage that refused the request;
  \<open>errorString\<close> is an \<open>errors.New\<close> message and \<open>wrapError\<close> an error wrapping
  another one (\<open>fmt.Errorf\<close> with \<open>%w\<close>).
  \<^item> The six \<open>Err...\<close> values are the sentinel errors returned by \<open>Config.Validate\<close>;
    their declarations are not among the sources, only their names are used.
  \<^item> \<open>alreadyRegistered p\<close> stands for
    \<open>fmt.Errorf("pattern %q was already registered", p)\<close> and \<open>sharedPattern p q\<close> for
    \<open>fmt.Errorf("pattern %q is registered, cannot register path %q that shares it", p, q)\<close>.
\<close>

datatype go_error =
    RequestBlockedError string
  | errorString string
  | wrapError string go_error
  | ErrJitterDelayRequired
  | ErrBackpressureQueryRequired
  | ErrBackpressureURLRequired
  | ErrCongestionWindowMinBelowOne
  | ErrCongestionWindowMaxBelowMin
  | ErrRegistryRequired
  | alreadyRegistered string
  | sharedPattern string string

text \<open>
  \<open>errors.As(err, &blocked)\<close> with \<open>blocked\<close> of type \<open>*RequestBlockedError\<close>: walks
  the chain of wrapped errors and stores the first error of that type in the target. The result is
  the target afterwards: \<open>None\<close> is the nil pointer left behind when nothing matched (the call
  returned false), \<open>Some t\<close> a pointer to an error whose \<open>Type\<close> field is \<open>t\<close> (the call
  returned true).
\<close>

fun errors_As :: "go_error \<Rightarrow> string option" where
  "errors_As (RequestBlockedError t) = Some t"
| "errors_As (wrapError m e) = errors_As e"
| "errors_As e = None"

text \<open>A computation either panics (a run-time fault of the Go program) or returns a value.\<close>

datatype 'a outcome = Panic string | Done 'a

text \<open>
  What a method of the interface \<open>ThanosClient\<close> does: it returns an error (nil or not), or
  it panics. A stage is a function of the context, the typed request and the state \<open>'w\<close> of
  everything the stage and the stages behind it can change; the state afterwards is returned in
  both cases.
\<close>

datatype ret = Return "go_error option" | Panicked string

type_synonym ('c, 'r, 'w) stage = "'c \<Rightarrow> 'r \<Rightarrow> 'w \<Rightarrow> ret \<times> 'w"

section \<open>Backpressure: the AIMD congestion controller\<close>

text \<open>
  Modelled from the spec: the file that defines \<open>Backpressure\<close> and \<open>NewBackpressure\<close>
  is not among the sources; only its test \<open>backpressure_test.go\<close> is, which reads the fields
  \<open>max\<close>, \<open>watermark\<close> and \<open>active\<close>. The congestion state follows section 3 of the
  specification, the operations its section 4.E (admission discipline, steps 1 to 3). The integers
  are unbounded; the fields \<open>min\<close> and \<open>max\<close> are named \<open>min_w\<close> and \<open>max_w\<close>.
\<close>

record congestion =
  min_w :: int
  max_w :: int
  watermark :: int
  active :: int

text \<open>
  Modelled from the spec: step 1 and 2 of the admission discipline, under the mutex. A refusal
  returns the error and leaves the state as it is.
\<close>

definition admit :: "congestion \<Rightarrow> go_error + congestion" where
  "admit s =
     (if active s \<ge> watermark s then Inl (RequestBlockedError ''backpressure'')
      else Inr (s\<lparr>active := active s + 1\<rparr>))"

text \<open>
  Modelled from the spec: step 3, on return of the delegated call, under the mutex: decrement
  \<open>active\<close>, then additive increase on success, multiplicative decrease on an error.
\<close>

definition complete :: "congestion \<Rightarrow> go_error option \<Rightarrow> congestion" where
  "complete s err =
     (let s1 = s\<lparr>active := active s - 1\<rparr>
      in case err of
           None \<Rightarrow> s1\<lparr>watermark := min (max_w s1) (watermark s1 + 1)\<rparr>
         | Some e \<Rightarrow> s1\<lparr>watermark := max (min_w s1) (watermark s1 div 2)\<rparr>)"

text \<open>
  Modelled from the spec: one request through the stage, with no other request in flight between
  admission and completion. The next stage is called only when the request is admitted, and its
  error is returned as it is. The specification says nothing of a next stage that panics: here the
  panic is passed on and step 3 does not run. \<open>QueryInstant\<close> and \<open>QueryRange\<close> differ only
  in the type of the request.
\<close>

definition Backpressure_Query ::
  "('c, 'r, 'd) stage \<Rightarrow> ('c, 'r, congestion \<times> 'd) stage" where
  "Backpressure_Query client ctx r st =
     (case admit (fst st) of
        Inl e \<Rightarrow> (Return (Some e), st)
      | Inr s1 \<Rightarrow>
          (case client ctx r (snd st) of
             (Return err, d1) \<Rightarrow> (Return err, (complete s1 err, d1))
           | (Panicked m, d1) \<Rightarrow> (Panicked m, (s1, d1))))"

text \<open>
  The \<open>Mocker\<close> of the tests, as a stage whose state is the list of the outcomes it still has
  to give, one for each call (nil once the list is used up).
\<close>

fun Mocker_Query :: "('c, 'r, go_error option list) stage" where
  "Mocker_Query ctx r [] = (Return None, [])"
| "Mocker_Query ctx r (e # es) = (Return e, es)"

text \<open>\<open>n\<close> requests handled one after the other by the backpressure stage over a \<open>Mocker\<close>.\<close>

fun sequential ::
  "nat \<Rightarrow> congestion \<times> go_error option list \<Rightarrow> congestion \<times> go_error option list" where
  "sequential 0 st = st"
| "sequential (Suc n) st = sequential n (snd (Backpressure_Query Mocker_Query () () st))"

section \<open>Jitter\<close>

text \<open>
  \<open>Jitterer.sleep\<close>. The delay is a \<open>time.Duration\<close>, a signed 64-bit count of
  nanoseconds that is only compared and passed on, never computed with. \<open>Intn\<close> is
  \<open>rand.Intn\<close>, which panics when its argument is not positive and otherwise gives some number
  in \<open>[0, n)\<close>: the random source is a parameter. The result is the duration slept.
\<close>

definition sleep :: "int \<Rightarrow> (int \<Rightarrow> int) \<Rightarrow> int outcome" where
  "sleep delay Intn =
     (if delay = 0 then Done 0
      else if delay \<le> 0 then Panic ''invalid argument to Intn''
      else Done (Intn delay))"

definition Jitterer_QueryInstant ::
  "int \<Rightarrow> (int \<Rightarrow> int) \<Rightarrow> ('c, 'r, 'w) stage \<Rightarrow> ('c, 'r, 'w) stage" where
  "Jitterer_QueryInstant delay Intn client ctx r st =
     (case sleep delay Intn of
        Panic m \<Rightarrow> (Panicked m, st)
      | Done d \<Rightarrow> client ctx r st)"

definition Jitterer_QueryRange ::
  "int \<Rightarrow> (int \<Rightarrow> int) \<Rightarrow> ('c, 'r, 'w) stage \<Rightarrow> ('c, 'r, 'w) stage" where
  "Jitterer_QueryRange delay Intn client ctx r st =
     (case sleep delay Intn of
        Panic m \<Rightarrow> (Panicked m, st)
      | Done d \<Rightarrow> client ctx r st)"

section \<open>Observer\<close>

text \<open>
  The four counter vectors of the \<open>Observer\<close>, each a function of its label values
  (\<open>query_type\<close>; for the block counter \<open>query_type\<close> and \<open>mw_type\<close>). The latency counter
  holds whole milliseconds.
\<close>

record metrics =
  errCounter :: "string \<Rightarrow> nat"
  blockCounter :: "string \<times> string \<Rightarrow> nat"
  reqCounter :: "string \<Rightarrow> nat"
  latencyCounter :: "string \<Rightarrow> int"

text \<open>
  \<open>Observer.handleMetrics\<close>. \<open>elapsed\<close> is \<open>o.since(start).Milliseconds()\<close>. The result
  is the message of the panic, if there was one, and the counters as the call left them. When
  \<open>errors.As\<close> finds no \<open>*RequestBlockedError\<close> the branch taken reads \<open>blocked.Type\<close>
  through the nil pointer \<open>blocked\<close>, before any counter is touched. \<open>Counter.Add\<close> panics
  on a negative value.
\<close>

definition handleMetrics ::
  "metrics \<Rightarrow> go_error option \<Rightarrow> int \<Rightarrow> string \<Rightarrow> string option \<times> metrics" where
  "handleMetrics o_m err elapsed queryType =
     (let counted = (\<lambda>m.
            let m1 = m\<lparr>reqCounter := (reqCounter m)(queryType := reqCounter m queryType + 1)\<rparr>
            in if elapsed < 0 then (Some ''counter cannot decrease in value'', m1)
               else (None, m1\<lparr>latencyCounter :=
                       (latencyCounter m1)(queryType := latencyCounter m1 queryType + elapsed)\<rparr>))
      in case err of
           None \<Rightarrow> counted o_m
         | Some e \<Rightarrow>
             (case errors_As e of
                None \<Rightarrow> (Some ''invalid memory address or nil pointer dereference'', o_m)
              | Some t \<Rightarrow>
                  counted (o_m\<lparr>errCounter := (errCounter o_m)(queryType := errCounter o_m queryType + 1)\<rparr>)))"

definition Observer_QueryInstant ::
  "int \<Rightarrow> ('c, 'r, 'w) stage \<Rightarrow> ('c, 'r, metrics \<times> 'w) stage" where
  "Observer_QueryInstant elapsed client ctx r st =
     (case client ctx r (snd st) of
        (Panicked msg, w1) \<Rightarrow> (Panicked msg, (fst st, w1))
      | (Return err, w1) \<Rightarrow>
          (case handleMetrics (fst st) err elapsed ''instant'' of
             (Some msg, m1) \<Rightarrow> (Panicked msg, (m1, w1))
           | (None, m1) \<Rightarrow> (Return err, (m1, w1))))"

definition Observer_QueryRange ::
  "int \<Rightarrow> ('c, 'r, 'w) stage \<Rightarrow> ('c, 'r, metrics \<times> 'w) stage" where
  "Observer_QueryRange elapsed client ctx r st =
     (case client ctx r (snd st) of
        (Panicked msg, w1) \<Rightarrow> (Panicked msg, (fst st, w1))
      | (Return err, w1) \<Rightarrow>
          (case handleMetrics (fst st) err elapsed ''range'' of
             (Some msg, m1) \<Rightarrow> (Panicked msg, (m1, w1))
           | (None, m1) \<Rightarrow> (Return err, (m1, w1))))"

section \<open>Request model and the exit stage\<close>

text \<open>
  \<open>url.Values\<close> and \<open>http.Header\<close> are Go maps from a key to a list of strings.
\<close>

type_synonym Values = "string \<rightharpoonup> string list"

record QueryOptions =
  DoNotAddThanosParams :: bool
  Deduplicate :: bool
  PartialResponse :: bool
  Method :: string
  MaxSourceResolution :: string
  Engine :: string
  HTTPHeaders :: Values

text \<open>\<open>strconv.FormatBool\<close>.\<close>

definition FormatBool :: "bool \<Rightarrow> string" where
  "FormatBool b = (if b then ''true'' else ''false'')"

text \<open>
  \<open>url.Values.Add\<close>: appends the value to the list stored under the key. The map is
  changed in place; writing to a nil map (\<open>None\<close>) panics.
\<close>

definition Values_Add :: "Values option \<Rightarrow> string \<Rightarrow> string \<Rightarrow> Values outcome" where
  "Values_Add vs key val =
     (case vs of
        None \<Rightarrow> Panic ''assignment to entry in nil map''
      | Some v \<Rightarrow> Done (v(key \<mapsto> (case v key of None \<Rightarrow> [] | Some xs \<Rightarrow> xs) @ [val])))"

text \<open>
  \<open>QueryOptions.AddTo\<close>: the error returned (always nil) and the map afterwards, or the
  panic of the first \<open>Add\<close> on a nil map.
\<close>

definition AddTo :: "QueryOptions \<Rightarrow> Values option \<Rightarrow> (go_error option \<times> Values) outcome" where
  "AddTo p vs =
     (case Values_Add vs ''dedup'' (FormatBool (Deduplicate p)) of
        Panic m \<Rightarrow> Panic m
      | Done v1 \<Rightarrow>
          (case (if MaxSourceResolution p \<noteq> []
                 then Values_Add (Some v1) ''max_source_resolution'' (MaxSourceResolution p)
                 else Done v1) of
             Panic m \<Rightarrow> Panic m
           | Done v2 \<Rightarrow>
               (case Values_Add (Some v2) ''engine'' (Engine p) of
                  Panic m \<Rightarrow> Panic m
                | Done v3 \<Rightarrow>
                    (case Values_Add (Some v3) ''partial_response'' (FormatBool (PartialResponse p)) of
                       Panic m \<Rightarrow> Panic m
                     | Done v4 \<Rightarrow> Done (None, v4)))))"

text \<open>
  An \<open>http.Handler\<close>: \<open>ServeHTTP(w, r)\<close> is given the response writer and the request
  (\<open>None\<close> is a nil \<open>*http.Request\<close>), changes the state of the world and returns nothing, or
  panics with a message.
\<close>

type_synonym ('wr, 'q, 'w) handler = "'wr \<Rightarrow> 'q option \<Rightarrow> 'w \<Rightarrow> string option \<times> 'w"

text \<open>
  \<open>InstantRequest\<close> and \<open>RangeRequest\<close>. The fields \<open>next\<close> and \<open>w\<close> are named
  \<open>nextHandler\<close> and \<open>writer\<close>; a nil \<open>next\<close> or \<open>Base\<close> is \<open>None\<close>. Times are
  numbers.
\<close>

record ('wr, 'q, 'w) InstantRequest =
  nextHandler :: "('wr, 'q, 'w) handler option"
  writer :: 'wr
  Base :: "string option"
  Query :: string
  Opts :: QueryOptions
  Time :: int

record ('wr, 'q, 'w) RangeRequest =
  nextHandler_r :: "('wr, 'q, 'w) handler option"
  writer_r :: 'wr
  Base_r :: "string option"
  Query_r :: string
  Opts_r :: QueryOptions
  Start :: int
  End :: int
  Step :: int

definition requestFromInstant ::
  "'c \<Rightarrow> ('wr, 'q, 'w) InstantRequest \<Rightarrow> 'q option \<times> go_error option" where
  "requestFromInstant ctx req = (None, None)"

definition requestFromRange ::
  "'c \<Rightarrow> ('wr, 'q, 'w) RangeRequest \<Rightarrow> 'q option \<times> go_error option" where
  "requestFromRange ctx req = (None, None)"

text \<open>
  \<open>Exit.QueryInstant\<close> and \<open>Exit.QueryRange\<close>. Calling \<open>ServeHTTP\<close> on a nil
  \<open>next\<close> panics.
\<close>

definition Exit_QueryInstant :: "('c, ('wr, 'q, 'w) InstantRequest, 'w) stage" where
  "Exit_QueryInstant ctx req st =
     (case requestFromInstant ctx req of
        (r, Some err) \<Rightarrow> (Return (Some err), st)
      | (r, None) \<Rightarrow>
          (case nextHandler req of
             None \<Rightarrow> (Panicked ''invalid memory address or nil pointer dereference'', st)
           | Some h \<Rightarrow>
               (case h (writer req) r st of
                  (Some m, st1) \<Rightarrow> (Panicked m, st1)
                | (None, st1) \<Rightarrow> (Return None, st1))))"

definition Exit_QueryRange :: "('c, ('wr, 'q, 'w) RangeRequest, 'w) stage" where
  "Exit_QueryRange ctx req st =
     (case requestFromRange ctx req of
        (r, Some err) \<Rightarrow> (Return (Some err), st)
      | (r, None) \<Rightarrow>
          (case nextHandler_r req of
             None \<Rightarrow> (Panicked ''invalid memory address or nil pointer dereference'', st)
           | Some h \<Rightarrow>
               (case h (writer_r req) r st of
                  (Some m, st1) \<Rightarrow> (Panicked m, st1)
                | (None, st1) \<Rightarrow> (Return None, st1))))"

section \<open>Configuration and pipeline assembly\<close>

text \<open>
  \<open>Config\<close>. The window bounds are Go \<open>int\<close>s and the delay a \<open>time.Duration\<close>; they
  are only compared. A nil \<open>ObserverRegistry\<close> is \<open>None\<close>.
\<close>

record 'reg Config =
  EnableBackpressure :: bool
  BackpressureMonitoringURL :: string
  BackpressureQueries :: "string list"
  CongestionWindowMin :: int
  CongestionWindowMax :: int
  EnableJitter :: bool
  JitterDelay :: int
  EnableObserver :: bool
  ObserverRegistry :: "'reg option"

text \<open>The loop over the health queries: the first error of the parser is returned.\<close>

fun parse_queries :: "(string \<Rightarrow> go_error option) \<Rightarrow> string list \<Rightarrow> go_error option" where
  "parse_queries ParseExpr [] = None"
| "parse_queries ParseExpr (q # qs) =
     (case ParseExpr q of Some err \<Rightarrow> Some err | None \<Rightarrow> parse_queries ParseExpr qs)"

text \<open>
  \<open>Config.Validate\<close>. The PromQL parser \<open>parser.ParseExpr\<close> and \<open>url.Parse\<close> are
  libraries outside the repository: parameters giving the error of each for a string.
\<close>

definition Validate ::
  "(string \<Rightarrow> go_error option) \<Rightarrow> (string \<Rightarrow> go_error option) \<Rightarrow> 'reg Config
     \<Rightarrow> go_error option" where
  "Validate ParseExpr url_Parse c =
     (if EnableJitter c \<and> JitterDelay c = 0 then Some ErrJitterDelayRequired
      else
        (case (if EnableBackpressure c then
                 (if length (BackpressureQueries c) = 0 then Some ErrBackpressureQueryRequired
                  else
                    (case parse_queries ParseExpr (BackpressureQueries c) of
                       Some err \<Rightarrow> Some err
                     | None \<Rightarrow>
                         (if BackpressureMonitoringURL c = [] then Some ErrBackpressureURLRequired
                          else
                            (case url_Parse (BackpressureMonitoringURL c) of
                               Some err \<Rightarrow> Some err
                             | None \<Rightarrow>
                                 (if CongestionWindowMin c < 1
                                  then Some ErrCongestionWindowMinBelowOne
                                  else if CongestionWindowMax c < CongestionWindowMin c
                                  then Some ErrCongestionWindowMaxBelowMin
                                  else None)))))
               else None) of
           Some err \<Rightarrow> Some err
         | None \<Rightarrow>
             (if EnableObserver c \<and> ObserverRegistry c = None then Some ErrRegistryRequired
              else None)))"

text \<open>
  The chain of stages built by \<open>NewMiddlewareFromConfig\<close>, each stage with the arguments of
  its constructor.
\<close>

datatype 'reg ThanosClient =
    Exit
  | Backpressure "'reg ThanosClient" int int "string list" string
  | Jitterer "'reg ThanosClient" int
  | Observer "'reg ThanosClient" "'reg option"

definition NewMiddlewareFromConfig ::
  "(string \<Rightarrow> go_error option) \<Rightarrow> (string \<Rightarrow> go_error option) \<Rightarrow> 'reg Config
     \<Rightarrow> go_error + 'reg ThanosClient" where
  "NewMiddlewareFromConfig ParseExpr url_Parse cfg =
     (case Validate ParseExpr url_Parse cfg of
        Some err \<Rightarrow> Inl err
      | None \<Rightarrow>
          (let q0 = Exit;
               q1 = (if EnableBackpressure cfg
                     then Backpressure q0 (CongestionWindowMin cfg) (CongestionWindowMax cfg)
                            (BackpressureQueries cfg) (BackpressureMonitoringURL cfg)
                     else q0);
               q2 = (if EnableJitter cfg then Jitterer q1 (JitterDelay cfg) else q1);
               q3 = (if EnableObserver cfg then Observer q2 (ObserverRegistry cfg) else q2)
           in Inr q3))"

section \<open>The strict router\<close>

text \<open>\<open>strings.HasPrefix\<close> and \<open>strings.TrimSuffix\<close>.\<close>

definition HasPrefix :: "string \<Rightarrow> string \<Rightarrow> bool" where
  "HasPrefix s pre = (take (length pre) s = pre)"

definition HasSuffix :: "string \<Rightarrow> string \<Rightarrow> bool" where
  "HasSuffix s suf = (length suf \<le> length s \<and> drop (length s - length suf) s = suf)"

definition TrimSuffix :: "string \<Rightarrow> string \<Rightarrow> string" where
  "TrimSuffix s suf = (if HasSuffix s suf then take (length s - length suf) s else s)"

text \<open>
  The loop at the head of \<open>strictMux.Handle\<close>: \<open>next\<close> is computed once, in the
  initialisation of the \<open>for\<close> statement, so the loop assigns it at most once.
\<close>

definition sanitize :: "string \<Rightarrow> string" where
  "sanitize pattern =
     (let sanitized = pattern; next_p = TrimSuffix sanitized ''/''
      in if next_p \<noteq> sanitized then next_p else sanitized)"

text \<open>
  The wrapped mux is an \<open>http.ServeMux\<close> behind the instrumenting mux; its state is the list
  of the patterns registered. Of the library's contract, \<open>ServeMux.Handle\<close> panics on an empty
  pattern and on a pattern registered before.
\<close>

definition ServeMux_Handle :: "string list \<Rightarrow> string \<Rightarrow> string list outcome" where
  "ServeMux_Handle m pattern =
     (if pattern = [] then Panic ''http: invalid pattern''
      else if pattern \<in> set m then Panic ''http: multiple registrations''
      else Done (m @ [pattern]))"

text \<open>
  \<open>strictMux\<close>: the wrapped mux and the keys of the map \<open>seen\<close>, in the order of their
  registration.
\<close>

record strictMux =
  mux :: "string list"
  seen :: "string list"

definition newStrictMux :: "string list \<Rightarrow> strictMux" where
  "newStrictMux m = \<lparr>mux = m, seen = []\<rparr>"

text \<open>
  \<open>strictMux.Handle\<close>. Go ranges over the map \<open>seen\<close> in an order of its choice, so which
  of several patterns the error names is not fixed; here it is the first in registration order.
\<close>

definition Handle :: "strictMux \<Rightarrow> string \<Rightarrow> (go_error option \<times> strictMux) outcome" where
  "Handle s pattern =
     (let sanitized = sanitize pattern
      in if sanitized \<in> set (seen s) then Done (Some (alreadyRegistered sanitized), s)
         else case find (\<lambda>p. HasPrefix (sanitized @ ''/'') (p @ ''/'')) (seen s) of
           Some p \<Rightarrow> Done (Some (sharedPattern p sanitized), s)
         | None \<Rightarrow>
             (case ServeMux_Handle (mux s) sanitized of
                Panic m \<Rightarrow> Panic m
              | Done m1 \<Rightarrow>
                  (case ServeMux_Handle m1 (sanitized @ ''/'') of
                     Panic m \<Rightarrow> Panic m
                   | Done m2 \<Rightarrow> Done (None, \<lparr>mux = m2, seen = seen s @ [sanitized]\<rparr>))))"

text \<open>
  What a caller reads back after \<open>AddTo\<close>: \<open>values[key]\<close>, the list of the values stored
  under a key, empty when the key is absent.
\<close>

definition Values_at :: "Values \<Rightarrow> string \<Rightarrow> string list" where
  "Values_at v key = (case v key of None \<Rightarrow> [] | Some xs \<Rightarrow> xs)"

definition emitted :: "(go_error option \<times> Values) outcome \<Rightarrow> string \<Rightarrow> string list" where
  "emitted res key = (case res of Panic m \<Rightarrow> [] | Done (err, v) \<Rightarrow> Values_at v key)"

section \<open>Properties of the backpressure stage\<close>

lemma Backpressure_admitted:
  assumes "active s < watermark s" and "client ctx r d = (Return err, d1)"
  shows "Backpressure_Query client ctx r (s, d) = (Return err, (complete (s\<lparr>active := active s + 1\<rparr>) err, d1))"
  using assms by (simp add: Backpressure_Query_def admit_def)

lemma complete_success:
  "complete (s\<lparr>active := active s + 1\<rparr>) None = s\<lparr>watermark := min (max_w s) (watermark s + 1)\<rparr>"
  by (simp add: complete_def Let_def)

lemma complete_error:
  "complete (s\<lparr>active := active s + 1\<rparr>) (Some e) = s\<lparr>watermark := max (min_w s) (watermark s div 2)\<rparr>"
  by (simp add: complete_def Let_def)

lemma halving_floor:
  fixes m x :: int
  assumes "0 \<le> m"
  shows "max m (max m (x div 2) div 2 ^ k) = max m (x div 2 ^ Suc k)"
proof -
  have pos: "(0::int) < 2 ^ k" by simp
  have eq: "x div 2 div 2 ^ k = x div 2 ^ Suc k"
    by (simp add: zdiv_zmult2_eq)
  show ?thesis
  proof (cases "x div 2 \<le> m")
    case True
    have "m div 2 ^ k \<le> m" using assms pos
      by (metis div_by_1 one_le_numeral one_le_power zdiv_mono2 zero_less_one)
    moreover have "x div 2 div 2 ^ k \<le> m div 2 ^ k"
      using True pos by (simp add: zdiv_mono1)
    ultimately show ?thesis using True eq by (simp add: max_def)
  next
    case False
    then show ?thesis using eq by (simp add: max_def)
  qed
qed

text \<open>
  Claim C1. Additive increase on success. In a congestion state with \<open>1 \<le> min\<close>,
  \<open>min \<le> watermark \<le> max\<close> and no request in flight, a request whose delegated call
  succeeds sets the watermark to \<open>min(max, watermark + 1)\<close> and leaves \<open>active\<close> as it
  was; \<open>n\<close> successful requests one after the other leave the watermark at
  \<open>min(max, watermark + n)\<close> and \<open>active = 0\<close>.
\<close>

theorem additive_increase_on_success:
  assumes "1 \<le> min_w s" and "min_w s \<le> watermark s" and "watermark s \<le> max_w s"
    and "active s = 0"
  shows "(client ctx r d = (Return None, d1) \<longrightarrow>
            Backpressure_Query client ctx r (s, d) =
              (Return None, (s\<lparr>watermark := min (max_w s) (watermark s + 1)\<rparr>, d1)))
         \<and> sequential n (s, replicate n None) =
              (s\<lparr>watermark := min (max_w s) (watermark s + int n)\<rparr>, [])
         \<and> active (fst (sequential n (s, replicate n None))) = 0"
proof -
  have adm: "active s < watermark s" using assms by simp
  have one: "client ctx r d = (Return None, d1) \<longrightarrow>
            Backpressure_Query client ctx r (s, d) =
              (Return None, (s\<lparr>watermark := min (max_w s) (watermark s + 1)\<rparr>, d1))"
    using Backpressure_admitted [OF adm] complete_success by metis
  have streak: "sequential n (s, replicate n None) =
              (s\<lparr>watermark := min (max_w s) (watermark s + int n)\<rparr>, [])"
    using assms
  proof (induction n arbitrary: s)
    case 0
    then show ?case by simp
  next
    case (Suc n)
    let ?s1 = "s\<lparr>watermark := min (max_w s) (watermark s + 1)\<rparr>"
    have "active s < watermark s" using Suc.prems by simp
    then have step: "Backpressure_Query Mocker_Query () () (s, None # replicate n None) =
        (Return None, (?s1, replicate n None))"
      using Backpressure_admitted [of s Mocker_Query "()" "()" "None # replicate n None" None "replicate n None"]
      by (simp add: complete_success)
    have "sequential n (?s1, replicate n None) =
        (?s1\<lparr>watermark := min (max_w ?s1) (watermark ?s1 + int n)\<rparr>, [])"
      by (rule Suc.IH) (use Suc.prems in auto)
    then show ?case using step Suc.prems by (simp add: min_def)
  qed
  show ?thesis using one streak assms(4) by simp
qed

theorem additive_increase_witness:
  "sequential 5 (\<lparr>min_w = 1, max_w = 10, watermark = 1, active = 0\<rparr>, replicate 5 None) =
     (\<lparr>min_w = 1, max_w = 10, watermark = 6, active = 0\<rparr>, [])
   \<and> sequential 5 (\<lparr>min_w = 1, max_w = 10, watermark = 8, active = 0\<rparr>, replicate 5 None) =
     (\<lparr>min_w = 1, max_w = 10, watermark = 10, active = 0\<rparr>, [])"
  using additive_increase_on_success [of "\<lparr>min_w = 1, max_w = 10, watermark = 1, active = 0\<rparr>" Mocker_Query "()" "()" "[]" "[]" 5]
    additive_increase_on_success [of "\<lparr>min_w = 1, max_w = 10, watermark = 8, active = 0\<rparr>" Mocker_Query "()" "()" "[]" "[]" 5]
  by simp

text \<open>
  Claim C2. Multiplicative decrease with floor. In a congestion state with \<open>1 \<le> min\<close>,
  \<open>min \<le> watermark \<le> max\<close> and no request in flight, a request whose delegated call
  returns an error sets the watermark to \<open>max(min, watermark div 2)\<close>; after \<open>k\<close> such
  requests it is \<open>max(min, watermark div 2^k)\<close>, which is never below \<open>min\<close> and is
  \<open>min\<close> as soon as \<open>watermark < 2^k\<close>.
\<close>

theorem multiplicative_decrease_on_error:
  assumes "1 \<le> min_w s" and "min_w s \<le> watermark s" and "watermark s \<le> max_w s"
    and "active s = 0"
  shows "(client ctx r d = (Return (Some e), d1) \<longrightarrow>
            Backpressure_Query client ctx r (s, d) =
              (Return (Some e), (s\<lparr>watermark := max (min_w s) (watermark s div 2)\<rparr>, d1)))
         \<and> sequential (length es) (s, map Some es) =
              (s\<lparr>watermark := max (min_w s) (watermark s div 2 ^ length es)\<rparr>, [])
         \<and> min_w s \<le> watermark (fst (sequential (length es) (s, map Some es)))
         \<and> (watermark s < 2 ^ length es \<longrightarrow>
              watermark (fst (sequential (length es) (s, map Some es))) = min_w s)"
proof -
  have adm: "active s < watermark s" using assms by simp
  have one: "client ctx r d = (Return (Some e), d1) \<longrightarrow>
            Backpressure_Query client ctx r (s, d) =
              (Return (Some e), (s\<lparr>watermark := max (min_w s) (watermark s div 2)\<rparr>, d1))"
    using Backpressure_admitted [OF adm] complete_error by metis
  have streak: "sequential (length es) (s, map Some es) =
              (s\<lparr>watermark := max (min_w s) (watermark s div 2 ^ length es)\<rparr>, [])"
    using assms(1,2,4)
  proof (induction es arbitrary: s)
    case Nil
    then show ?case by simp
  next
    case (Cons x xs)
    let ?s1 = "s\<lparr>watermark := max (min_w s) (watermark s div 2)\<rparr>"
    have "active s < watermark s" using Cons.prems by simp
    then have step: "Backpressure_Query Mocker_Query () () (s, Some x # map Some xs) =
        (Return (Some x), (?s1, map Some xs))"
      using Backpressure_admitted [of s Mocker_Query "()" "()" "Some x # map Some xs" "Some x" "map Some xs"]
      by (simp add: complete_error)
    have "sequential (length xs) (?s1, map Some xs) =
        (?s1\<lparr>watermark := max (min_w ?s1) (watermark ?s1 div 2 ^ length xs)\<rparr>, [])"
      by (rule Cons.IH) (use Cons.prems in auto)
    moreover have "max (min_w s) (max (min_w s) (watermark s div 2) div 2 ^ length xs) =
        max (min_w s) (watermark s div 2 ^ Suc (length xs))"
      by (rule halving_floor) (use Cons.prems in simp)
    ultimately show ?case using step by simp
  qed
  have small: "watermark s < 2 ^ length es \<longrightarrow> watermark s div 2 ^ length es = 0"
    using assms(1,2) by (simp add: div_pos_pos_trivial)
  show ?thesis using one streak small assms(1) by auto
qed

theorem multiplicative_decrease_witness:
  "sequential 1 (\<lparr>min_w = 1, max_w = 10, watermark = 6, active = 0\<rparr>, [Some (errorString ''fail'')]) =
     (\<lparr>min_w = 1, max_w = 10, watermark = 3, active = 0\<rparr>, [])
   \<and> sequential 4 (\<lparr>min_w = 1, max_w = 10, watermark = 3, active = 0\<rparr>, replicate 4 (Some (errorString ''fail''))) =
     (\<lparr>min_w = 1, max_w = 10, watermark = 1, active = 0\<rparr>, [])"
  using multiplicative_decrease_on_error [of "\<lparr>min_w = 1, max_w = 10, watermark = 6, active = 0\<rparr>" Mocker_Query "()" "()" "[]" "errorString ''fail''" "[]" "[errorString ''fail'']"]
    multiplicative_decrease_on_error [of "\<lparr>min_w = 1, max_w = 10, watermark = 3, active = 0\<rparr>" Mocker_Query "()" "()" "[]" "errorString ''fail''" "[]" "replicate 4 (errorString ''fail'')"]
  by simp

section \<open>Properties of the pipeline stages\<close>

lemma handleMetrics_blocked:
  assumes "errors_As e = Some t" and "0 \<le> elapsed"
  shows "handleMetrics m (Some e) elapsed qt =
    (None, m\<lparr>errCounter := (errCounter m)(qt := errCounter m qt + 1),
             reqCounter := (reqCounter m)(qt := reqCounter m qt + 1),
             latencyCounter := (latencyCounter m)(qt := latencyCounter m qt + elapsed)\<rparr>)"
  using assms by (simp add: handleMetrics_def Let_def)

lemma Backpressure_refused:
  "watermark s \<le> active s \<Longrightarrow> Backpressure_Query client ctx r (s, d) =
     (Return (Some (RequestBlockedError ''backpressure'')), (s, d))"
  by (simp add: Backpressure_Query_def admit_def)

text \<open>
  Claim C3. Admission refusal is fail-fast and atomic. When \<open>active \<ge> watermark\<close> the
  backpressure stage returns the \<open>RequestBlockedError\<close> tagged \<open>backpressure\<close>, whatever
  the next stage is (it is not called: the downstream state is the one before), with \<open>active\<close>
  and \<open>watermark\<close> as they were. The stages in front of it, \<open>Jitterer\<close> (with a delay that
  is not negative) and \<open>Observer\<close> (with an elapsed time that is not negative), return that
  same error and leave the congestion state and the downstream state alone.
\<close>

theorem refusal_is_fail_fast:
  assumes "watermark s \<le> active s" and "0 \<le> delay" and "0 \<le> elapsed"
  shows "Backpressure_Query client ctx r (s, d) =
           (Return (Some (RequestBlockedError ''backpressure'')), (s, d))
       \<and> Jitterer_QueryInstant delay Intn (Backpressure_Query client) ctx r (s, d) =
           (Return (Some (RequestBlockedError ''backpressure'')), (s, d))
       \<and> Jitterer_QueryRange delay Intn (Backpressure_Query client) ctx r (s, d) =
           (Return (Some (RequestBlockedError ''backpressure'')), (s, d))
       \<and> fst (Observer_QueryInstant elapsed
                (Jitterer_QueryInstant delay Intn (Backpressure_Query client)) ctx r (m, (s, d))) =
           Return (Some (RequestBlockedError ''backpressure''))
       \<and> snd (snd (Observer_QueryInstant elapsed
                (Jitterer_QueryInstant delay Intn (Backpressure_Query client)) ctx r (m, (s, d)))) =
           (s, d)
       \<and> fst (Observer_QueryRange elapsed
                (Jitterer_QueryRange delay Intn (Backpressure_Query client)) ctx r (m, (s, d))) =
           Return (Some (RequestBlockedError ''backpressure''))
       \<and> snd (snd (Observer_QueryRange elapsed
                (Jitterer_QueryRange delay Intn (Backpressure_Query client)) ctx r (m, (s, d)))) =
           (s, d)"
proof -
  note bp = Backpressure_refused [OF assms(1)]
  have sl: "\<exists>t. sleep delay Intn = Done t"
    using assms(2) by (simp add: sleep_def)
  have ji: "Jitterer_QueryInstant delay Intn (Backpressure_Query client) ctx r (s, d) =
           (Return (Some (RequestBlockedError ''backpressure'')), (s, d))"
    using sl bp by (auto simp add: Jitterer_QueryInstant_def)
  have jr: "Jitterer_QueryRange delay Intn (Backpressure_Query client) ctx r (s, d) =
           (Return (Some (RequestBlockedError ''backpressure'')), (s, d))"
    using sl bp by (auto simp add: Jitterer_QueryRange_def)
  have hm: "\<And>qt. \<exists>m1. handleMetrics m (Some (RequestBlockedError ''backpressure'')) elapsed qt = (None, m1)"
    using handleMetrics_blocked [of "RequestBlockedError ''backpressure''" "''backpressure''" elapsed m] assms(3)
    by simp
  have oi: "Observer_QueryInstant elapsed
                (Jitterer_QueryInstant delay Intn (Backpressure_Query client)) ctx r (m, (s, d)) =
      (Return (Some (RequestBlockedError ''backpressure'')),
       (snd (handleMetrics m (Some (RequestBlockedError ''backpressure'')) elapsed ''instant''), (s, d)))"
    using hm [of "''instant''"] by (auto simp add: Observer_QueryInstant_def ji)
  have orr: "Observer_QueryRange elapsed
                (Jitterer_QueryRange delay Intn (Backpressure_Query client)) ctx r (m, (s, d)) =
      (Return (Some (RequestBlockedError ''backpressure'')),
       (snd (handleMetrics m (Some (RequestBlockedError ''backpressure'')) elapsed ''range''), (s, d)))"
    using hm [of "''range''"] by (auto simp add: Observer_QueryRange_def jr)
  show ?thesis using bp ji jr oi orr by simp
qed

theorem refusal_witness:
  "Backpressure_Query Mocker_Query () () (\<lparr>min_w = 1, max_w = 10, watermark = 1, active = 1\<rparr>, [None]) =
     (Return (Some (RequestBlockedError ''backpressure'')),
      (\<lparr>min_w = 1, max_w = 10, watermark = 1, active = 1\<rparr>, [None]))"
  using refusal_is_fail_fast [of "\<lparr>min_w = 1, max_w = 10, watermark = 1, active = 1\<rparr>" 0 0
     Mocker_Query "()" "()" "[None]" "\<lambda>n. 0" "\<lparr>errCounter = \<lambda>q. 0, blockCounter = \<lambda>q. 0, reqCounter = \<lambda>q. 0, latencyCounter = \<lambda>q. 0\<rparr>"]
  by simp

text \<open>
  Claim C4. Observer error discrimination, evaluated on the code. With all counters at zero, an
  instant request refused with \<open>RequestBlockedError\<close> tagged \<open>backpressure\<close> increments the
  error counter and leaves the block counter at zero; an error that is not of the blocked variant
  increments neither: the call panics on the nil pointer.
\<close>

theorem observer_counts_block_as_error:
  "handleMetrics \<lparr>errCounter = \<lambda>q. 0, blockCounter = \<lambda>q. 0, reqCounter = \<lambda>q. 0, latencyCounter = \<lambda>q. 0\<rparr>
      (Some (RequestBlockedError ''backpressure'')) 7 ''instant'' =
    (None, \<lparr>errCounter = (\<lambda>q. 0)(''instant'' := 1), blockCounter = \<lambda>q. 0,
            reqCounter = (\<lambda>q. 0)(''instant'' := 1), latencyCounter = (\<lambda>q. 0)(''instant'' := 7)\<rparr>)
   \<and> handleMetrics \<lparr>errCounter = \<lambda>q. 0, blockCounter = \<lambda>q. 0, reqCounter = \<lambda>q. 0, latencyCounter = \<lambda>q. 0\<rparr>
      (Some (errorString ''fail'')) 7 ''instant'' =
    (Some ''invalid memory address or nil pointer dereference'',
     \<lparr>errCounter = \<lambda>q. 0, blockCounter = \<lambda>q. 0, reqCounter = \<lambda>q. 0, latencyCounter = \<lambda>q. 0\<rparr>)"
  by (simp add: handleMetrics_def Let_def)

text \<open>
  Claim C9. \<open>handleMetrics\<close> is not total. For an error in whose chain \<open>errors.As\<close> finds
  no \<open>*RequestBlockedError\<close>, \<open>handleMetrics\<close> panics on the nil pointer with every
  counter as it was, so neither the request counter nor the latency counter is updated, and
  \<open>Observer.QueryInstant\<close> and \<open>Observer.QueryRange\<close> panic instead of returning the error
  of the delegated call.
\<close>

theorem handleMetrics_faults_on_plain_error:
  assumes "errors_As e = None"
  shows "handleMetrics m (Some e) elapsed queryType =
           (Some ''invalid memory address or nil pointer dereference'', m)
       \<and> (client ctx r w = (Return (Some e), w1) \<longrightarrow>
            Observer_QueryInstant elapsed client ctx r (m, w) =
              (Panicked ''invalid memory address or nil pointer dereference'', (m, w1))
          \<and> Observer_QueryRange elapsed client ctx r (m, w) =
              (Panicked ''invalid memory address or nil pointer dereference'', (m, w1)))"
  using assms
  by (simp add: handleMetrics_def Let_def Observer_QueryInstant_def Observer_QueryRange_def)

theorem handleMetrics_faults_witness:
  "errors_As (errorString ''fail'') = None
   \<and> Observer_QueryRange 3 Mocker_Query () ()
       (\<lparr>errCounter = \<lambda>q. 0, blockCounter = \<lambda>q. 0, reqCounter = \<lambda>q. 0, latencyCounter = \<lambda>q. 0\<rparr>,
        [Some (errorString ''fail'')]) =
     (Panicked ''invalid memory address or nil pointer dereference'',
      (\<lparr>errCounter = \<lambda>q. 0, blockCounter = \<lambda>q. 0, reqCounter = \<lambda>q. 0, latencyCounter = \<lambda>q. 0\<rparr>, []))"
  using handleMetrics_faults_on_plain_error [of "errorString ''fail''"
     "\<lparr>errCounter = \<lambda>q. 0, blockCounter = \<lambda>q. 0, reqCounter = \<lambda>q. 0, latencyCounter = \<lambda>q. 0\<rparr>"
     3 "''range''" Mocker_Query "()" "()" "[Some (errorString ''fail'')]" "[]"]
  by simp

text \<open>
  Claim C7. Jitter configuration validation, evaluated on the code. With the jitter stage enabled
  and a delay of \<open>-1\<close> nanosecond (the other stages disabled), \<open>Validate\<close> returns nil and
  \<open>NewMiddlewareFromConfig\<close> builds the chain with that delay; \<open>Jitterer.sleep\<close> then
  panics in \<open>rand.Intn\<close> at each request.
\<close>

theorem negative_jitter_delay_accepted:
  "Validate (\<lambda>q. None) (\<lambda>u. None)
     \<lparr>EnableBackpressure = False, BackpressureMonitoringURL = [], BackpressureQueries = [[]],
      CongestionWindowMin = 0, CongestionWindowMax = 0, EnableJitter = True, JitterDelay = - 1,
      EnableObserver = False, ObserverRegistry = (None :: unit option)\<rparr> = None
   \<and> NewMiddlewareFromConfig (\<lambda>q. None) (\<lambda>u. None)
     \<lparr>EnableBackpressure = False, BackpressureMonitoringURL = [], BackpressureQueries = [[]],
      CongestionWindowMin = 0, CongestionWindowMax = 0, EnableJitter = True, JitterDelay = - 1,
      EnableObserver = False, ObserverRegistry = (None :: unit option)\<rparr> = Inr (Jitterer Exit (- 1))
   \<and> sleep (- 1) (\<lambda>n. 0) = Panic ''invalid argument to Intn''"
  by (simp add: Validate_def NewMiddlewareFromConfig_def sleep_def)

text \<open>
  Claim C8. Jitter is a no-op at zero delay. With a delay of \<open>0\<close>, \<open>sleep\<close> returns at
  once, having slept for no time, and \<open>Jitterer.QueryInstant\<close> and \<open>Jitterer.QueryRange\<close>
  are equal, as functions, to the corresponding method of the wrapped stage.
\<close>

theorem jitter_zero_delay_is_identity:
  assumes "delay = 0"
  shows "sleep delay Intn = Done 0
       \<and> Jitterer_QueryInstant delay Intn client = client
       \<and> Jitterer_QueryRange delay Intn client = client"
  using assms by (auto simp add: sleep_def Jitterer_QueryInstant_def Jitterer_QueryRange_def fun_eq_iff)

theorem jitter_zero_delay_witness:
  "(0::int) = 0 \<and> sleep 0 (\<lambda>n. n - 1) = Done 0
   \<and> Jitterer_QueryInstant 0 (\<lambda>n. n - 1) (Mocker_Query :: (unit, unit, go_error option list) stage) = Mocker_Query
   \<and> Jitterer_QueryRange 0 (\<lambda>n. n - 1) (Mocker_Query :: (unit, unit, go_error option list) stage) = Mocker_Query"
  using jitter_zero_delay_is_identity [of 0 "\<lambda>n. n - 1" "Mocker_Query :: (unit, unit, go_error option list) stage"]
  by simp

text \<open>
  Claim C10, as amended. \<open>requestFromInstant\<close> and \<open>requestFromRange\<close> return a nil
  request and a nil error for every context and request, so \<open>Exit.QueryInstant\<close> and
  \<open>Exit.QueryRange\<close> never return a non-nil error. They return nil exactly when the request
  has a handler and the handler, called with the nil request, returns; the state of the world is
  then the one the handler left. With a nil handler they panic on the nil pointer and change
  nothing, and a panic of the handler is passed on.
\<close>

theorem exit_returns_nil_iff_handler_returns:
  "requestFromInstant ctx req = (None, None)
   \<and> requestFromRange ctx rreq = (None, None)
   \<and> fst (Exit_QueryInstant ctx req st) \<noteq> Return (Some e)
   \<and> fst (Exit_QueryRange ctx rreq st) \<noteq> Return (Some e)
   \<and> ((fst (Exit_QueryInstant ctx req st) = Return None) \<longleftrightarrow>
        (\<exists>g. nextHandler req = Some g \<and> fst (g (writer req) None st) = None))
   \<and> ((fst (Exit_QueryRange ctx rreq st) = Return None) \<longleftrightarrow>
        (\<exists>g. nextHandler_r rreq = Some g \<and> fst (g (writer_r rreq) None st) = None))
   \<and> (nextHandler req = None \<longrightarrow>
        Exit_QueryInstant ctx req st =
          (Panicked ''invalid memory address or nil pointer dereference'', st))
   \<and> (nextHandler_r rreq = None \<longrightarrow>
        Exit_QueryRange ctx rreq st =
          (Panicked ''invalid memory address or nil pointer dereference'', st))
   \<and> (nextHandler req = Some h \<longrightarrow>
        snd (Exit_QueryInstant ctx req st) = snd (h (writer req) None st)
        \<and> (fst (h (writer req) None st) = Some m \<longrightarrow>
             fst (Exit_QueryInstant ctx req st) = Panicked m))
   \<and> (nextHandler_r rreq = Some hr \<longrightarrow>
        snd (Exit_QueryRange ctx rreq st) = snd (hr (writer_r rreq) None st)
        \<and> (fst (hr (writer_r rreq) None st) = Some m \<longrightarrow>
             fst (Exit_QueryRange ctx rreq st) = Panicked m))"
proof -
  have i: "Exit_QueryInstant ctx req st =
      (case nextHandler req of
         None \<Rightarrow> (Panicked ''invalid memory address or nil pointer dereference'', st)
       | Some g \<Rightarrow>
           (case g (writer req) None st of
              (Some msg, st1) \<Rightarrow> (Panicked msg, st1)
            | (None, st1) \<Rightarrow> (Return None, st1)))"
    by (simp add: Exit_QueryInstant_def requestFromInstant_def)
  have r: "Exit_QueryRange ctx rreq st =
      (case nextHandler_r rreq of
         None \<Rightarrow> (Panicked ''invalid memory address or nil pointer dereference'', st)
       | Some g \<Rightarrow>
           (case g (writer_r rreq) None st of
              (Some msg, st1) \<Rightarrow> (Panicked msg, st1)
            | (None, st1) \<Rightarrow> (Return None, st1)))"
    by (simp add: Exit_QueryRange_def requestFromRange_def)
  have a: "requestFromInstant ctx req = (None, None)"
    by (simp add: requestFromInstant_def)
  have b: "requestFromRange ctx rreq = (None, None)"
    by (simp add: requestFromRange_def)
  have c: "fst (Exit_QueryInstant ctx req st) \<noteq> Return (Some e)"
    unfolding i by (simp split: option.splits prod.splits)
  have d: "fst (Exit_QueryRange ctx rreq st) \<noteq> Return (Some e)"
    unfolding r by (simp split: option.splits prod.splits)
  have e: "(fst (Exit_QueryInstant ctx req st) = Return None) \<longleftrightarrow>
        (\<exists>g. nextHandler req = Some g \<and> fst (g (writer req) None st) = None)"
    unfolding i by (auto split: option.splits prod.splits)
  have f: "(fst (Exit_QueryRange ctx rreq st) = Return None) \<longleftrightarrow>
        (\<exists>g. nextHandler_r rreq = Some g \<and> fst (g (writer_r rreq) None st) = None)"
    unfolding r by (auto split: option.splits prod.splits)
  have g: "nextHandler req = None \<longrightarrow>
        Exit_QueryInstant ctx req st =
          (Panicked ''invalid memory address or nil pointer dereference'', st)"
    unfolding i by simp
  have h: "nextHandler_r rreq = None \<longrightarrow>
        Exit_QueryRange ctx rreq st =
          (Panicked ''invalid memory address or nil pointer dereference'', st)"
    unfolding r by simp
  have j: "nextHandler req = Some h \<longrightarrow>
        snd (Exit_QueryInstant ctx req st) = snd (h (writer req) None st)
        \<and> (fst (h (writer req) None st) = Some m \<longrightarrow>
             fst (Exit_QueryInstant ctx req st) = Panicked m)"
    unfolding i by (auto split: option.splits prod.splits)
  have k: "nextHandler_r rreq = Some hr \<longrightarrow>
        snd (Exit_QueryRange ctx rreq st) = snd (hr (writer_r rreq) None st)
        \<and> (fst (hr (writer_r rreq) None st) = Some m \<longrightarrow>
             fst (Exit_QueryRange ctx rreq st) = Panicked m)"
    unfolding r by (auto split: option.splits prod.splits)
  show ?thesis
    using a b c d e f g h j k by (intro conjI)
qed

theorem exit_witness:
  "fst (Exit_QueryInstant ()
     \<lparr>nextHandler = Some (\<lambda>wr q st. (None, (wr, q) # st)), writer = (0::nat), Base = None, Query = ''up'',
      Opts = \<lparr>DoNotAddThanosParams = False, Deduplicate = False, PartialResponse = False, Method = [],
              MaxSourceResolution = [], Engine = [], HTTPHeaders = Map.empty\<rparr>, Time = 0\<rparr>
        ([] :: (nat \<times> unit option) list))
   = Return None
   \<and> snd (Exit_QueryInstant ()
     \<lparr>nextHandler = Some (\<lambda>wr q st. (None, (wr, q) # st)), writer = (0::nat), Base = None, Query = ''up'',
      Opts = \<lparr>DoNotAddThanosParams = False, Deduplicate = False, PartialResponse = False, Method = [],
              MaxSourceResolution = [], Engine = [], HTTPHeaders = Map.empty\<rparr>, Time = 0\<rparr> [])
   = [(0, None :: unit option)]
   \<and> Exit_QueryRange ()
     \<lparr>nextHandler_r = (None :: (nat, unit, (nat \<times> unit option) list) handler option), writer_r = (1::nat), Base_r = None,
      Query_r = ''up'',
      Opts_r = \<lparr>DoNotAddThanosParams = False, Deduplicate = False, PartialResponse = False, Method = [],
              MaxSourceResolution = [], Engine = [], HTTPHeaders = Map.empty\<rparr>,
      Start = 0, End = 10, Step = 1\<rparr> ([] :: (nat \<times> unit option) list)
   = (Panicked ''invalid memory address or nil pointer dereference'', [])"
  using exit_returns_nil_iff_handler_returns [of "()"
     "\<lparr>nextHandler = Some (\<lambda>wr q st. (None, (wr, q) # st)), writer = (0::nat), Base = None, Query = ''up'',
      Opts = \<lparr>DoNotAddThanosParams = False, Deduplicate = False, PartialResponse = False, Method = [],
              MaxSourceResolution = [], Engine = [], HTTPHeaders = Map.empty\<rparr>, Time = 0\<rparr>"
     "\<lparr>nextHandler_r = (None :: (nat, unit, (nat \<times> unit option) list) handler option), writer_r = (1::nat), Base_r = None,
      Query_r = ''up'',
      Opts_r = \<lparr>DoNotAddThanosParams = False, Deduplicate = False, PartialResponse = False, Method = [],
              MaxSourceResolution = [], Engine = [], HTTPHeaders = Map.empty\<rparr>,
      Start = 0, End = 10, Step = 1\<rparr>"
     "[] :: (nat \<times> unit option) list" "errorString []"
     "\<lambda>wr q st. (None, (wr, q) # st)" "[]"
     "\<lambda>wr q st. (None, (wr, q) # st)"]
  by simp

text \<open>
  Claim C10 as stated fails: for the zero-valued request \<open>InstantRequest{}\<close>, whose handler is
  nil, \<open>Exit.QueryInstant\<close> does not return nil; it panics.
\<close>

theorem exit_nil_handler_counterexample:
  "Exit_QueryInstant ()
     \<lparr>nextHandler = (None :: (nat, unit, (nat \<times> unit option) list) handler option), writer = 0,
      Base = None, Query = [],
      Opts = \<lparr>DoNotAddThanosParams = False, Deduplicate = False, PartialResponse = False, Method = [],
              MaxSourceResolution = [], Engine = [], HTTPHeaders = Map.empty\<rparr>, Time = 0\<rparr> []
   = (Panicked ''invalid memory address or nil pointer dereference'', [])
   \<and> fst (Exit_QueryInstant ()
     \<lparr>nextHandler = (None :: (nat, unit, (nat \<times> unit option) list) handler option), writer = 0,
      Base = None, Query = [],
      Opts = \<lparr>DoNotAddThanosParams = False, Deduplicate = False, PartialResponse = False, Method = [],
              MaxSourceResolution = [], Engine = [], HTTPHeaders = Map.empty\<rparr>, Time = 0\<rparr> [])
     \<noteq> Return None"
  by (simp add: Exit_QueryInstant_def requestFromInstant_def)

section \<open>Properties of the strict router\<close>

lemma HasPrefix_refl: "HasPrefix (x @ y) (x @ y)"
  by (simp add: HasPrefix_def)

lemma Handle_error_iff:
  "(\<exists>e. Handle s q = Done (Some e, s')) \<longleftrightarrow>
     (s' = s \<and> (\<exists>p \<in> set (seen s). HasPrefix (sanitize q @ ''/'') (p @ ''/'')))"
proof (cases "sanitize q \<in> set (seen s)")
  case True
  then have "Handle s q = Done (Some (alreadyRegistered (sanitize q)), s)"
    by (simp add: Handle_def Let_def)
  moreover have "\<exists>p \<in> set (seen s). HasPrefix (sanitize q @ ''/'') (p @ ''/'')"
    using True HasPrefix_refl by blast
  ultimately show ?thesis by auto
next
  case False
  show ?thesis
  proof (cases "find (\<lambda>p. HasPrefix (sanitize q @ ''/'') (p @ ''/'')) (seen s)")
    case None
    then have no: "\<not> (\<exists>p \<in> set (seen s). HasPrefix (sanitize q @ ''/'') (p @ ''/''))"
      by (simp add: find_None_iff)
    have "\<And>e. Handle s q \<noteq> Done (Some e, s')"
      using False None by (simp add: Handle_def Let_def split: outcome.splits)
    then show ?thesis using no by blast
  next
    case (Some p)
    then have "p \<in> set (seen s) \<and> HasPrefix (sanitize q @ ''/'') (p @ ''/'')"
      by (auto simp add: find_Some_iff)
    moreover have "Handle s q = Done (Some (sharedPattern p (sanitize q)), s)"
      using False Some by (simp add: Handle_def Let_def)
    ultimately show ?thesis by auto
  qed
qed

lemma Handle_success_seen:
  assumes "Handle s p = Done (None, s1)"
  shows "seen s1 = seen s @ [sanitize p]"
  using assms by (auto simp add: Handle_def Let_def split: if_splits option.splits outcome.splits)

text \<open>
  Claim C5, as amended. Registering a pattern returns an error exactly when the pattern, with its
  trailing slash removed as \<open>Handle\<close> does it, is equal to or a \<open>/\<close>-delimited subpath of a
  pattern registered before, and then nothing is registered. So when \<open>q\<close> is a subpath of
  \<open>p\<close>, registering \<open>q\<close> after \<open>p\<close> fails. Nothing is checked in the other direction.
\<close>

theorem strict_router_rejects_subpaths_of_registered:
  "((\<exists>e. Handle s q = Done (Some e, s)) \<longleftrightarrow>
      (\<exists>p \<in> set (seen s). HasPrefix (sanitize q @ ''/'') (p @ ''/'')))
   \<and> (\<forall>e s'. Handle s q = Done (Some e, s') \<longrightarrow> s' = s)
   \<and> (Handle s p = Done (None, s1) \<and> HasPrefix (sanitize q @ ''/'') (sanitize p @ ''/'')
        \<longrightarrow> (\<exists>e. Handle s1 q = Done (Some e, s1)))"
proof -
  have a: "(\<exists>e. Handle s q = Done (Some e, s)) \<longleftrightarrow>
      (\<exists>p \<in> set (seen s). HasPrefix (sanitize q @ ''/'') (p @ ''/''))"
    using Handle_error_iff [of s q s] by simp
  have b: "\<forall>e s'. Handle s q = Done (Some e, s') \<longrightarrow> s' = s"
    using Handle_error_iff [of s q] by blast
  have c: "Handle s p = Done (None, s1) \<and> HasPrefix (sanitize q @ ''/'') (sanitize p @ ''/'')
        \<longrightarrow> (\<exists>e. Handle s1 q = Done (Some e, s1))"
  proof
    assume h: "Handle s p = Done (None, s1) \<and> HasPrefix (sanitize q @ ''/'') (sanitize p @ ''/'')"
    then have "sanitize p \<in> set (seen s1)"
      using Handle_success_seen [of s p s1] by simp
    then have "\<exists>x \<in> set (seen s1). HasPrefix (sanitize q @ ''/'') (x @ ''/'')"
      using h by blast
    then show "\<exists>e. Handle s1 q = Done (Some e, s1)"
      using Handle_error_iff [of s1 q s1] by simp
  qed
  show ?thesis using a b c by blast
qed

theorem strict_router_witness:
  "Handle (newStrictMux []) ''/api/v1/query'' =
     Done (None, \<lparr>mux = [''/api/v1/query'', ''/api/v1/query/''], seen = [''/api/v1/query'']\<rparr>)
   \<and> HasPrefix (sanitize ''/api/v1/query/sub/'' @ ''/'') (sanitize ''/api/v1/query'' @ ''/'')
   \<and> (\<exists>e. Handle \<lparr>mux = [''/api/v1/query'', ''/api/v1/query/''], seen = [''/api/v1/query'']\<rparr>
             ''/api/v1/query/sub/'' =
           Done (Some e, \<lparr>mux = [''/api/v1/query'', ''/api/v1/query/''], seen = [''/api/v1/query'']\<rparr>))"
proof -
  have r: "Handle (newStrictMux []) ''/api/v1/query'' =
     Done (None, \<lparr>mux = [''/api/v1/query'', ''/api/v1/query/''], seen = [''/api/v1/query'']\<rparr>)"
    by (simp add: Handle_def newStrictMux_def sanitize_def TrimSuffix_def HasSuffix_def
        ServeMux_Handle_def Let_def)
  have h: "HasPrefix (sanitize ''/api/v1/query/sub/'' @ ''/'') (sanitize ''/api/v1/query'' @ ''/'')"
    by (simp add: sanitize_def TrimSuffix_def HasSuffix_def HasPrefix_def Let_def)
  show ?thesis
    using r h strict_router_rejects_subpaths_of_registered [of "newStrictMux []" "''/api/v1/query/sub/''"
        "''/api/v1/query''" "\<lparr>mux = [''/api/v1/query'', ''/api/v1/query/''], seen = [''/api/v1/query'']\<rparr>"]
    by blast
qed

text \<open>
  Claim C5 as stated fails: \<open>/api/v1/query/sub\<close> is a subpath of \<open>/api/v1/query\<close>, and
  registering \<open>/api/v1/query\<close> after \<open>/api/v1/query/sub\<close> succeeds.
\<close>

theorem strict_router_order_counterexample:
  "Handle (newStrictMux []) ''/api/v1/query/sub'' =
     Done (None, \<lparr>mux = [''/api/v1/query/sub'', ''/api/v1/query/sub/''], seen = [''/api/v1/query/sub'']\<rparr>)
   \<and> HasPrefix (sanitize ''/api/v1/query/sub'' @ ''/'') (sanitize ''/api/v1/query'' @ ''/'')
   \<and> Handle \<lparr>mux = [''/api/v1/query/sub'', ''/api/v1/query/sub/''], seen = [''/api/v1/query/sub'']\<rparr>
        ''/api/v1/query'' =
     Done (None, \<lparr>mux = [''/api/v1/query/sub'', ''/api/v1/query/sub/'', ''/api/v1/query'', ''/api/v1/query/''],
                  seen = [''/api/v1/query/sub'', ''/api/v1/query'']\<rparr>)"
  by (simp add: Handle_def newStrictMux_def sanitize_def TrimSuffix_def HasSuffix_def HasPrefix_def
        ServeMux_Handle_def Let_def)

section \<open>Properties of the serialisation of query options\<close>

lemma Values_Add_Some: "Values_Add (Some v) k x = Done (v(k \<mapsto> Values_at v k @ [x]))"
  by (simp add: Values_Add_def Values_at_def)

lemma Values_at_upd: "Values_at (v(k \<mapsto> xs)) k' = (if k' = k then xs else Values_at v k')"
  by (simp add: Values_at_def)

lemma AddTo_Some:
  "AddTo p (Some v) =
     Done (None,
       (let v1 = v(''dedup'' \<mapsto> Values_at v ''dedup'' @ [FormatBool (Deduplicate p)]);
            v2 = (if MaxSourceResolution p \<noteq> []
                  then v1(''max_source_resolution'' \<mapsto>
                         Values_at v1 ''max_source_resolution'' @ [MaxSourceResolution p])
                  else v1);
            v3 = v2(''engine'' \<mapsto> Values_at v2 ''engine'' @ [Engine p])
        in v3(''partial_response'' \<mapsto>
                Values_at v3 ''partial_response'' @ [FormatBool (PartialResponse p)])))"
  unfolding AddTo_def Values_Add_Some Let_def by simp


lemma FormatBool_lower: "FormatBool b = (if b then ''true'' else ''false'')"
  by (simp add: FormatBool_def)

text \<open>
  Claim C6, as amended. Serialising a \<open>QueryOptions\<close> value into a non-nil \<open>url.Values\<close>
  returns nil and appends \<open>dedup\<close> and \<open>partial_response\<close> as the lower-case strings
  \<open>true\<close> or \<open>false\<close>, \<open>engine\<close> (also when it is empty) and, only when it is not empty,
  \<open>max_source_resolution\<close>. No other key changes: the method, the header overrides and the
  flag suppressing the parameters are not written.
\<close>

theorem AddTo_emits_query_flags:
  "\<exists>v'. AddTo p (Some v) = Done (None, v')
     \<and> Values_at v' ''dedup'' =
           Values_at v ''dedup'' @ [if Deduplicate p then ''true'' else ''false'']
     \<and> Values_at v' ''partial_response'' =
           Values_at v ''partial_response'' @ [if PartialResponse p then ''true'' else ''false'']
     \<and> Values_at v' ''engine'' = Values_at v ''engine'' @ [Engine p]
     \<and> Values_at v' ''max_source_resolution'' =
           (if MaxSourceResolution p = [] then Values_at v ''max_source_resolution''
            else Values_at v ''max_source_resolution'' @ [MaxSourceResolution p])
     \<and> (\<forall>k. k \<notin> {''dedup'', ''max_source_resolution'', ''engine'', ''partial_response''}
           \<longrightarrow> v' k = v k)"
proof -
  define v1 where "v1 = v(''dedup'' \<mapsto> Values_at v ''dedup'' @ [FormatBool (Deduplicate p)])"
  define v2 where "v2 = (if MaxSourceResolution p \<noteq> []
                  then v1(''max_source_resolution'' \<mapsto>
                         Values_at v1 ''max_source_resolution'' @ [MaxSourceResolution p])
                  else v1)"
  define v3 where "v3 = v2(''engine'' \<mapsto> Values_at v2 ''engine'' @ [Engine p])"
  define v4 where "v4 = v3(''partial_response'' \<mapsto>
                Values_at v3 ''partial_response'' @ [FormatBool (PartialResponse p)])"
  have r: "AddTo p (Some v) = Done (None, v4)"
    by (simp add: AddTo_Some Let_def v1_def v2_def v3_def v4_def)
  have d: "Values_at v4 ''dedup'' = Values_at v ''dedup'' @ [FormatBool (Deduplicate p)]"
    by (simp add: v4_def v3_def v2_def v1_def Values_at_upd)
  have pr: "Values_at v4 ''partial_response'' =
      Values_at v ''partial_response'' @ [FormatBool (PartialResponse p)]"
    by (simp add: v4_def v3_def v2_def v1_def Values_at_upd)
  have en: "Values_at v4 ''engine'' = Values_at v ''engine'' @ [Engine p]"
    by (simp add: v4_def v3_def v2_def v1_def Values_at_upd)
  have ms: "Values_at v4 ''max_source_resolution'' =
           (if MaxSourceResolution p = [] then Values_at v ''max_source_resolution''
            else Values_at v ''max_source_resolution'' @ [MaxSourceResolution p])"
    by (simp add: v4_def v3_def v2_def v1_def Values_at_upd)
  have other: "\<forall>k. k \<notin> {''dedup'', ''max_source_resolution'', ''engine'', ''partial_response''}
           \<longrightarrow> v4 k = v k"
    by (simp add: v4_def v3_def v2_def v1_def)
  show ?thesis
    using r d pr en ms other unfolding FormatBool_lower by blast
qed


theorem AddTo_witness:
  "\<exists>v'. AddTo \<lparr>DoNotAddThanosParams = False, Deduplicate = True, PartialResponse = False,
       Method = ''POST'', MaxSourceResolution = ''5m'', Engine = ''thanos'',
       HTTPHeaders = [''X-Scope'' \<mapsto> [''a'']]\<rparr> (Some Map.empty) = Done (None, v')
     \<and> Values_at v' ''dedup'' = [''true'']
     \<and> Values_at v' ''partial_response'' = [''false'']
     \<and> Values_at v' ''engine'' = [''thanos'']
     \<and> Values_at v' ''max_source_resolution'' = [''5m'']
     \<and> v' ''method'' = None"
proof -
  let ?p = "\<lparr>DoNotAddThanosParams = False, Deduplicate = True,
       PartialResponse = False, Method = ''POST'', MaxSourceResolution = ''5m'', Engine = ''thanos'',
       HTTPHeaders = [''X-Scope'' \<mapsto> [''a'']]\<rparr>"
  obtain v' where r: "AddTo ?p (Some Map.empty) = Done (None, v')"
    and d: "Values_at v' ''dedup'' =
           Values_at Map.empty ''dedup'' @ [if Deduplicate ?p then ''true'' else ''false'']"
    and pr: "Values_at v' ''partial_response'' =
           Values_at Map.empty ''partial_response'' @ [if PartialResponse ?p then ''true'' else ''false'']"
    and en: "Values_at v' ''engine'' = Values_at Map.empty ''engine'' @ [Engine ?p]"
    and ms: "Values_at v' ''max_source_resolution'' =
           (if MaxSourceResolution ?p = [] then Values_at Map.empty ''max_source_resolution''
            else Values_at Map.empty ''max_source_resolution'' @ [MaxSourceResolution ?p])"
    and other: "\<forall>k. k \<notin> {''dedup'', ''max_source_resolution'', ''engine'', ''partial_response''}
           \<longrightarrow> v' k = Map.empty k"
    using AddTo_emits_query_flags [of ?p Map.empty] by blast
  have e: "\<And>k. Values_at Map.empty k = []"
    by (simp add: Values_at_def)
  have 1: "Values_at v' ''dedup'' = [''true'']" using d by (simp add: e)
  have 2: "Values_at v' ''partial_response'' = [''false'']" using pr by (simp add: e)
  have 3: "Values_at v' ''engine'' = [''thanos'']" using en by (simp add: e)
  have 4: "Values_at v' ''max_source_resolution'' = [''5m'']" using ms by (simp add: e)
  have 5: "v' ''method'' = None"
    using other [rule_format, of "''method''"] by simp
  show ?thesis using r 1 2 3 4 5 by (intro exI [of _ v'] conjI)
qed

text \<open>
  Claim C6 as stated fails: for options with the method \<open>POST\<close>, a header override and no
  \<open>max_source_resolution\<close>, serialised into an empty map, nothing is stored for the method, for
  the header or for \<open>max_source_resolution\<close>, while \<open>dedup\<close> is.
\<close>

theorem AddTo_omits_method_counterexample:
  "emitted (AddTo \<lparr>DoNotAddThanosParams = False, Deduplicate = True, PartialResponse = False,
       Method = ''POST'', MaxSourceResolution = [], Engine = ''thanos'',
       HTTPHeaders = [''X-Scope'' \<mapsto> [''a'']]\<rparr> (Some Map.empty)) ''method'' = []
   \<and> emitted (AddTo \<lparr>DoNotAddThanosParams = False, Deduplicate = True, PartialResponse = False,
       Method = ''POST'', MaxSourceResolution = [], Engine = ''thanos'',
       HTTPHeaders = [''X-Scope'' \<mapsto> [''a'']]\<rparr> (Some Map.empty)) ''max_source_resolution'' = []
   \<and> emitted (AddTo \<lparr>DoNotAddThanosParams = False, Deduplicate = True, PartialResponse = False,
       Method = ''POST'', MaxSourceResolution = [], Engine = ''thanos'',
       HTTPHeaders = [''X-Scope'' \<mapsto> [''a'']]\<rparr> (Some Map.empty)) ''X-Scope'' = []
   \<and> emitted (AddTo \<lparr>DoNotAddThanosParams = False, Deduplicate = True, PartialResponse = False,
       Method = ''POST'', MaxSourceResolution = [], Engine = ''thanos'',
       HTTPHeaders = [''X-Scope'' \<mapsto> [''a'']]\<rparr> (Some Map.empty)) ''dedup'' = [''true'']"
proof -
  have e: "\<And>k. Values_at Map.empty k = []"
    by (simp add: Values_at_def)
  show ?thesis
    by (simp add: emitted_def AddTo_Some Let_def Values_at_upd e FormatBool_def)
qed

end
